theory Spec2Isabelle
  imports Complex_Main "HOL-Library.Word" "HOL-Library.AList"
begin

section \<open>The activation conditions of JoystickGremlin\<close>

text \<open>
  The theory embeds the condition classes of \<^verbatim>\<open>gremlin/base_classes.py\<close>
  (\<^verbatim>\<open>KeyboardCondition\<close>, \<^verbatim>\<open>JoystickCondition\<close>, \<^verbatim>\<open>VJoyCondition\<close>,
  \<^verbatim>\<open>InputActionCondition\<close>) and the composite \<^verbatim>\<open>ActivationCondition\<close>, with their
  \<^verbatim>\<open>from_xml\<close>, \<^verbatim>\<open>to_xml\<close> and \<^verbatim>\<open>is_valid\<close> methods. A method that assigns to
  \<^verbatim>\<open>self\<close> takes the instance and returns the updated one; an exception is a value
  of type \<open>error\<close>.
\<close>

subsection \<open>Errors\<close>

text \<open>
  \<open>SchemaError\<close> is the error of the helpers of \<^verbatim>\<open>gremlin/util.py\<close> and
  \<^verbatim>\<open>gremlin/types.py\<close> (it carries the attribute name or the offending text, and the
  reason). \<open>KeyError\<close> is Python's own error of a dictionary subscript with a key the
  dictionary does not hold; it carries the key. \<open>TypeError\<close> is Python's own error of a
  call with an argument of the wrong type.
\<close>

datatype schema_reason = Missing | Malformed | UnknownEnumValue

datatype error = SchemaError string schema_reason | KeyError string | TypeError

subsection \<open>XML elements\<close>

text \<open>
  An \<^verbatim>\<open>ElementTree.Element\<close>: a tag, the attribute dictionary in insertion order, and
  the child elements in document order.
\<close>

datatype xml_node = Element (tag: string) (attrib: "(string \<times> string) list") (children: "xml_node list")

definition Element_new :: "string \<Rightarrow> xml_node" where
  "Element_new t = Element t [] []"

definition node_set :: "xml_node \<Rightarrow> string \<Rightarrow> string \<Rightarrow> xml_node" where
  "node_set n k v = Element (tag n) (AList.update k v (attrib n)) (children n)"

definition node_get :: "xml_node \<Rightarrow> string \<Rightarrow> string option" where
  "node_get n k = map_of (attrib n) k"

definition node_append :: "xml_node \<Rightarrow> xml_node \<Rightarrow> xml_node" where
  "node_append n c = Element (tag n) (attrib n) (children n @ [c])"

definition node_findall :: "xml_node \<Rightarrow> string \<Rightarrow> xml_node list" where
  "node_findall n t = filter (\<lambda>c. tag c = t) (children n)"

subsection \<open>Python's str and int on integers and booleans\<close>

definition digit_char :: "nat \<Rightarrow> char" where
  "digit_char d = ''0123456789'' ! d"

definition digit_val :: "char \<Rightarrow> nat option" where
  "digit_val c = map_of
     [(CHR ''0'', 0), (CHR ''1'', 1), (CHR ''2'', 2), (CHR ''3'', 3), (CHR ''4'', 4),
      (CHR ''5'', 5), (CHR ''6'', 6), (CHR ''7'', 7), (CHR ''8'', 8), (CHR ''9'', 9)] c"

fun str_nat :: "nat \<Rightarrow> string" where
  "str_nat n = (if n < 10 then [digit_char n] else str_nat (n div 10) @ [digit_char (n mod 10)])"

declare str_nat.simps [simp del]

definition str_int :: "int \<Rightarrow> string" where
  "str_int i = (if i < 0 then CHR ''-'' # str_nat (nat (- i)) else str_nat (nat i))"

definition str_bool :: "bool \<Rightarrow> string" where
  "str_bool b = (if b then ''True'' else ''False'')"

text \<open>\<^verbatim>\<open>str(x)\<close> of a field that holds \<^verbatim>\<open>None\<close> or a value.\<close>

definition str_opt :: "('a \<Rightarrow> string) \<Rightarrow> 'a option \<Rightarrow> string" where
  "str_opt f x = (case x of None \<Rightarrow> ''None'' | Some v \<Rightarrow> f v)"

text \<open>
  \<^verbatim>\<open>int(s)\<close> on a string: surrounding whitespace is stripped, a sign may lead, and the
  decimal digits may be grouped by single underscores. \<open>None\<close> is Python's ValueError.
\<close>

definition is_space :: "char \<Rightarrow> bool" where
  "is_space c = (c \<in> set [CHR '' '', CHR 0x09, CHR 0x0A, CHR 0x0B, CHR 0x0C, CHR 0x0D])"

definition strip :: "string \<Rightarrow> string" where
  "strip s = rev (dropWhile is_space (rev (dropWhile is_space s)))"

fun int_digits :: "string \<Rightarrow> nat \<Rightarrow> nat option" where
  "int_digits [] acc = Some acc"
| "int_digits (c # cs) acc =
     (if c = CHR ''_'' then
        (case cs of
           [] \<Rightarrow> None
         | d # ds \<Rightarrow> (case digit_val d of None \<Rightarrow> None | Some v \<Rightarrow> int_digits ds (10 * acc + v)))
      else (case digit_val c of None \<Rightarrow> None | Some v \<Rightarrow> int_digits cs (10 * acc + v)))"

definition int_unsigned :: "string \<Rightarrow> nat option" where
  "int_unsigned s =
     (case s of
        [] \<Rightarrow> None
      | c # cs \<Rightarrow> (case digit_val c of None \<Rightarrow> None | Some v \<Rightarrow> int_digits cs v))"

definition py_int :: "string \<Rightarrow> int option" where
  "py_int s =
     (case strip s of
        [] \<Rightarrow> None
      | c # cs \<Rightarrow>
          if c = CHR ''-'' then map_option (\<lambda>n. - int n) (int_unsigned cs)
          else if c = CHR ''+'' then map_option int (int_unsigned cs)
          else map_option int (int_unsigned (c # cs)))"

subsection \<open>Helpers of gremlin/util.py and gremlin/types.py\<close>

text \<open>
  Modelled from the spec: \<^verbatim>\<open>safe_read\<close> (section 4.1, \<^verbatim>\<open>read_attr\<close>) of
  \<^verbatim>\<open>gremlin/util.py\<close>, which is not among the source files. It returns the attribute's
  string value and fails with a \<open>SchemaError\<close> when the attribute is absent; with a
  coercion it applies the coercion and fails with a \<open>SchemaError\<close> when the value does
  not parse.
\<close>

definition safe_read :: "xml_node \<Rightarrow> string \<Rightarrow> error + string" where
  "safe_read node key =
     (case node_get node key of
        None \<Rightarrow> Inl (SchemaError key Missing)
      | Some v \<Rightarrow> Inr v)"

definition safe_read_cast :: "xml_node \<Rightarrow> string \<Rightarrow> (string \<Rightarrow> 'a option) \<Rightarrow> error + 'a" where
  "safe_read_cast node key type_cast =
     (case safe_read node key of
        Inl e \<Rightarrow> Inl e
      | Inr v \<Rightarrow> (case type_cast v of None \<Rightarrow> Inl (SchemaError key Malformed) | Some x \<Rightarrow> Inr x))"

text \<open>
  Modelled from the spec: \<^verbatim>\<open>parse_bool\<close> (section 4.1) of \<^verbatim>\<open>gremlin/util.py\<close>. It
  accepts \<^verbatim>\<open>true\<close>, \<^verbatim>\<open>false\<close>, \<^verbatim>\<open>1\<close> and \<^verbatim>\<open>0\<close> in any letter case; every other
  input is a \<open>SchemaError\<close>.
\<close>

definition lower_char :: "char \<Rightarrow> char" where
  "lower_char c =
     (case map_of (zip ''ABCDEFGHIJKLMNOPQRSTUVWXYZ'' ''abcdefghijklmnopqrstuvwxyz'') c of
        None \<Rightarrow> c
      | Some l \<Rightarrow> l)"

definition parse_bool :: "string \<Rightarrow> error + bool" where
  "parse_bool s =
     (let l = map lower_char s in
      if l = ''true'' \<or> l = ''1'' then Inr True
      else if l = ''false'' \<or> l = ''0'' then Inr False
      else Inl (SchemaError s Malformed))"

text \<open>
  Modelled from the spec: the input-type tag \<^verbatim>\<open>InputType\<close> of \<^verbatim>\<open>gremlin/types.py\<close>
  (section 3 and the schema of section 6), with the canonical lower-case string of each
  category. \<^verbatim>\<open>to_enum\<close> fails with a \<open>SchemaError\<close> on an unknown string.
\<close>

datatype InputType = JoystickAxis | JoystickButton | JoystickHat | Keyboard

fun InputType_string :: "InputType \<Rightarrow> string" where
  "InputType_string JoystickAxis = ''axis''"
| "InputType_string JoystickButton = ''button''"
| "InputType_string JoystickHat = ''hat''"
| "InputType_string Keyboard = ''keyboard''"

definition InputType_to_enum :: "string \<Rightarrow> error + InputType" where
  "InputType_to_enum s =
     (if s = ''axis'' then Inr JoystickAxis
      else if s = ''button'' then Inr JoystickButton
      else if s = ''hat'' then Inr JoystickHat
      else if s = ''keyboard'' then Inr Keyboard
      else Inl (SchemaError s UnknownEnumValue))"

text \<open>
  What the source calls that is outside this embedding is a parameter of the model:
  Python's \<^verbatim>\<open>str\<close> of a float and \<^verbatim>\<open>float\<close> of a string (\<open>None\<close> is its ValueError);
  the result of \<^verbatim>\<open>InputType.to_string(None)\<close>, on which the spec is silent (the
  source reaches it through \<^verbatim>\<open>to_xml\<close> of a condition whose \<^verbatim>\<open>input_type\<close> is unset);
  and the result of \<^verbatim>\<open>parse_guid(None)\<close>, on which the spec is silent as well (the
  source reaches it through \<^verbatim>\<open>node.get\<close> of an absent \<^verbatim>\<open>device-guid\<close> attribute).
  A float is modelled by the real number it denotes.
\<close>

record helpers =
  str_float :: "real \<Rightarrow> string"
  float_of :: "string \<Rightarrow> real option"
  to_string_none :: "error + string"
  parse_guid_none :: "error + 128 word"

definition InputType_to_string :: "helpers \<Rightarrow> InputType option \<Rightarrow> error + string" where
  "InputType_to_string h t =
     (case t of None \<Rightarrow> to_string_none h | Some v \<Rightarrow> Inr (InputType_string v))"

text \<open>
  Modelled from the spec: the 128-bit device identifier \<^verbatim>\<open>dill.GUID\<close> and
  \<^verbatim>\<open>parse_guid\<close> (section 4.1), neither of which is among the source files. The
  canonical text is the 8-4-4-4-12 hexadecimal form in braces; \<^verbatim>\<open>parse_guid\<close> accepts
  that form with or without the braces, and every other string is a \<open>SchemaError\<close>. The
  source hands \<^verbatim>\<open>parse_guid\<close> the result of \<^verbatim>\<open>node.get\<close>, which is \<^verbatim>\<open>None\<close> for an
  absent attribute: the argument is a \<open>string option\<close>, and what \<^verbatim>\<open>parse_guid\<close> does
  with \<^verbatim>\<open>None\<close> is the parameter \<open>parse_guid_none\<close>.
\<close>

type_synonym guid = "128 word"

definition hex_char :: "nat \<Rightarrow> char" where
  "hex_char d = ''0123456789ABCDEF'' ! d"

definition hex_val :: "char \<Rightarrow> nat option" where
  "hex_val c = map_of
     [(CHR ''0'', 0), (CHR ''1'', 1), (CHR ''2'', 2), (CHR ''3'', 3), (CHR ''4'', 4),
      (CHR ''5'', 5), (CHR ''6'', 6), (CHR ''7'', 7), (CHR ''8'', 8), (CHR ''9'', 9),
      (CHR ''A'', 10), (CHR ''B'', 11), (CHR ''C'', 12), (CHR ''D'', 13), (CHR ''E'', 14),
      (CHR ''F'', 15),
      (CHR ''a'', 10), (CHR ''b'', 11), (CHR ''c'', 12), (CHR ''d'', 13), (CHR ''e'', 14),
      (CHR ''f'', 15)] c"

primrec to_hex :: "nat \<Rightarrow> nat \<Rightarrow> string" where
  "to_hex 0 n = []"
| "to_hex (Suc k) n = to_hex k (n div 16) @ [hex_char (n mod 16)]"

fun of_hex :: "string \<Rightarrow> nat \<Rightarrow> nat option" where
  "of_hex [] acc = Some acc"
| "of_hex (c # cs) acc =
     (case hex_val c of None \<Rightarrow> None | Some v \<Rightarrow> of_hex cs (16 * acc + v))"

definition str_guid :: "guid \<Rightarrow> string" where
  "str_guid g =
     (let h = to_hex 32 (unat g) in
      ''{'' @ take 8 h @ ''-'' @ take 4 (drop 8 h) @ ''-'' @ take 4 (drop 12 h) @ ''-''
        @ take 4 (drop 16 h) @ ''-'' @ drop 20 h @ ''}'')"

definition unbrace :: "string \<Rightarrow> string" where
  "unbrace s =
     (if 2 \<le> length s \<and> hd s = CHR ''{'' \<and> last s = CHR ''}'' then butlast (tl s) else s)"

definition parse_guid :: "helpers \<Rightarrow> string option \<Rightarrow> error + guid" where
  "parse_guid h v =
     (case v of
        None \<Rightarrow> parse_guid_none h
      | Some s \<Rightarrow>
          (let t = unbrace s in
           if length t = 36 \<and> t ! 8 = CHR ''-'' \<and> t ! 13 = CHR ''-'' \<and> t ! 18 = CHR ''-''
              \<and> t ! 23 = CHR ''-''
           then
             (case of_hex (take 8 t @ take 4 (drop 9 t) @ take 4 (drop 14 t)
                            @ take 4 (drop 19 t) @ drop 24 t) 0 of
                None \<Rightarrow> Inl (SchemaError s Malformed)
              | Some n \<Rightarrow> Inr (word_of_nat n))
           else Inl (SchemaError s Malformed)))"

subsection \<open>The condition classes\<close>

text \<open>
  One constructor per class, the fields in the order \<^verbatim>\<open>__init__\<close> assigns them
  (\<^verbatim>\<open>comparison\<close> comes from \<^verbatim>\<open>AbstractCondition.__init__\<close>). A field that starts as
  \<^verbatim>\<open>None\<close> is an option. \<^verbatim>\<open>device_guid\<close> starts as the integer 0 and holds a GUID after
  \<^verbatim>\<open>from_xml\<close>. \<^verbatim>\<open>range\<close> is the two-element list of the source, low end first.
\<close>

datatype guid_value = PyInt int | Guid guid

datatype Condition =
    KeyboardCondition (comparison: string) (scan_code: "int option") (is_extended: "bool option")
  | JoystickCondition (comparison: string) (device_guid: guid_value)
      (input_type: "InputType option") (input_id: int) (range_of: "real \<times> real")
      (device_name: string)
  | VJoyCondition (comparison: string) (vjoy_id: int) (input_type: "InputType option")
      (input_id: int) (range_of: "real \<times> real")
  | InputActionCondition (comparison: string)

definition str_guid_value :: "guid_value \<Rightarrow> string" where
  "str_guid_value v = (case v of PyInt i \<Rightarrow> str_int i | Guid g \<Rightarrow> str_guid g)"

definition KeyboardCondition_init :: Condition where
  "KeyboardCondition_init = KeyboardCondition '''' None None"

definition JoystickCondition_init :: Condition where
  "JoystickCondition_init = JoystickCondition '''' (PyInt 0) None 0 (0, 0) ''''"

definition VJoyCondition_init :: Condition where
  "VJoyCondition_init = VJoyCondition '''' 0 None 0 (0, 0)"

definition InputActionCondition_init :: Condition where
  "InputActionCondition_init = InputActionCondition ''''"

text \<open>\<^verbatim>\<open>AbstractCondition.is_valid\<close>, and the overrides that call it through \<^verbatim>\<open>super()\<close>.\<close>

definition AbstractCondition_is_valid :: "Condition \<Rightarrow> bool" where
  "AbstractCondition_is_valid c = (comparison c \<noteq> '''')"

fun is_valid :: "Condition \<Rightarrow> bool" where
  "is_valid (KeyboardCondition cmp sc ext) =
     (AbstractCondition_is_valid (KeyboardCondition cmp sc ext) \<and> sc \<noteq> None \<and> ext \<noteq> None)"
| "is_valid (JoystickCondition cmp g it iid rng name) =
     (AbstractCondition_is_valid (JoystickCondition cmp g it iid rng name) \<and> it \<noteq> None)"
| "is_valid (VJoyCondition cmp vid it iid rng) =
     (AbstractCondition_is_valid (VJoyCondition cmp vid it iid rng) \<and> it \<noteq> None)"
| "is_valid (InputActionCondition cmp) =
     AbstractCondition_is_valid (InputActionCondition cmp)"

text \<open>
  \<^verbatim>\<open>from_xml\<close> of the four classes: the instance and the node give the populated
  instance, or the first error raised. The fields are read in the order of the source.
\<close>

fun from_xml :: "helpers \<Rightarrow> Condition \<Rightarrow> xml_node \<Rightarrow> error + Condition" where
  "from_xml h (KeyboardCondition cmp sc ext) node =
     (case safe_read node ''comparison'' of Inl e \<Rightarrow> Inl e | Inr cmp' \<Rightarrow>
      case safe_read_cast node ''scan-code'' py_int of Inl e \<Rightarrow> Inl e | Inr sc' \<Rightarrow>
      case safe_read node ''extended'' of Inl e \<Rightarrow> Inl e | Inr s \<Rightarrow>
      case parse_bool s of Inl e \<Rightarrow> Inl e | Inr ext' \<Rightarrow>
      Inr (KeyboardCondition cmp' (Some sc') (Some ext')))"
| "from_xml h (JoystickCondition cmp g it iid rng name) node =
     (case safe_read node ''comparison'' of Inl e \<Rightarrow> Inl e | Inr cmp' \<Rightarrow>
      case safe_read node ''input'' of Inl e \<Rightarrow> Inl e | Inr s \<Rightarrow>
      case InputType_to_enum s of Inl e \<Rightarrow> Inl e | Inr it' \<Rightarrow>
      case safe_read_cast node ''id'' py_int of Inl e \<Rightarrow> Inl e | Inr iid' \<Rightarrow>
      case parse_guid h (node_get node ''device-guid'') of Inl e \<Rightarrow> Inl e | Inr g' \<Rightarrow>
      case safe_read node ''device-name'' of Inl e \<Rightarrow> Inl e | Inr name' \<Rightarrow>
      if it' = JoystickAxis then
        (case safe_read_cast node ''range-low'' (float_of h) of Inl e \<Rightarrow> Inl e | Inr lo \<Rightarrow>
         case safe_read_cast node ''range-high'' (float_of h) of Inl e \<Rightarrow> Inl e | Inr hi \<Rightarrow>
         Inr (JoystickCondition cmp' (Guid g') (Some it') iid' (lo, hi) name'))
      else Inr (JoystickCondition cmp' (Guid g') (Some it') iid' rng name'))"
| "from_xml h (VJoyCondition cmp vid it iid rng) node =
     (case safe_read node ''comparison'' of Inl e \<Rightarrow> Inl e | Inr cmp' \<Rightarrow>
      case safe_read node ''input'' of Inl e \<Rightarrow> Inl e | Inr s \<Rightarrow>
      case InputType_to_enum s of Inl e \<Rightarrow> Inl e | Inr it' \<Rightarrow>
      case safe_read_cast node ''id'' py_int of Inl e \<Rightarrow> Inl e | Inr iid' \<Rightarrow>
      case safe_read_cast node ''vjoy-id'' py_int of Inl e \<Rightarrow> Inl e | Inr vid' \<Rightarrow>
      if it' = JoystickAxis then
        (case safe_read_cast node ''range-low'' (float_of h) of Inl e \<Rightarrow> Inl e | Inr lo \<Rightarrow>
         case safe_read_cast node ''range-high'' (float_of h) of Inl e \<Rightarrow> Inl e | Inr hi \<Rightarrow>
         Inr (VJoyCondition cmp' vid' (Some it') iid' (lo, hi)))
      else Inr (VJoyCondition cmp' vid' (Some it') iid' rng))"
| "from_xml h (InputActionCondition cmp) node =
     (case safe_read node ''comparison'' of Inl e \<Rightarrow> Inl e | Inr cmp' \<Rightarrow>
      Inr (InputActionCondition cmp'))"

text \<open>
  \<^verbatim>\<open>to_xml\<close> of the four classes. The only call that can raise is
  \<^verbatim>\<open>InputType.to_string\<close>, after \<^verbatim>\<open>comparison\<close> and \<^verbatim>\<open>condition-type\<close> are set.
\<close>

fun to_xml :: "helpers \<Rightarrow> Condition \<Rightarrow> error + xml_node" where
  "to_xml h (KeyboardCondition cmp sc ext) =
     (let node = Element_new ''condition'';
          node = node_set node ''condition-type'' ''keyboard'';
          node = node_set node ''input'' ''keyboard'';
          node = node_set node ''comparison'' cmp;
          node = node_set node ''scan-code'' (str_opt str_int sc);
          node = node_set node ''extended'' (str_opt str_bool ext)
      in Inr node)"
| "to_xml h (JoystickCondition cmp g it iid rng name) =
     (let node = Element_new ''condition'';
          node = node_set node ''comparison'' cmp;
          node = node_set node ''condition-type'' ''joystick''
      in case InputType_to_string h it of Inl e \<Rightarrow> Inl e | Inr s \<Rightarrow>
         (let node = node_set node ''input'' s;
              node = node_set node ''id'' (str_int iid);
              node = node_set node ''device-guid'' (str_guid_value g);
              node = node_set node ''device-name'' name
          in if it = Some JoystickAxis then
               (let node = node_set node ''range-low'' (str_float h (fst rng));
                    node = node_set node ''range-high'' (str_float h (snd rng))
                in Inr node)
             else Inr node))"
| "to_xml h (VJoyCondition cmp vid it iid rng) =
     (let node = Element_new ''condition'';
          node = node_set node ''comparison'' cmp;
          node = node_set node ''condition-type'' ''vjoy''
      in case InputType_to_string h it of Inl e \<Rightarrow> Inl e | Inr s \<Rightarrow>
         (let node = node_set node ''input'' s;
              node = node_set node ''id'' (str_int iid);
              node = node_set node ''vjoy-id'' (str_int vid)
          in if it = Some JoystickAxis then
               (let node = node_set node ''range-low'' (str_float h (fst rng));
                    node = node_set node ''range-high'' (str_float h (snd rng))
                in Inr node)
             else Inr node))"
| "to_xml h (InputActionCondition cmp) =
     (let node = Element_new ''condition'';
          node = node_set node ''condition-type'' ''action'';
          node = node_set node ''input'' ''action'';
          node = node_set node ''comparison'' cmp
      in Inr node)"

subsection \<open>ActivationCondition\<close>

text \<open>
  Modelled from the spec: the rule tag \<^verbatim>\<open>ActivationRule\<close> of \<^verbatim>\<open>gremlin/types.py\<close>
  (section 4.3), a two-valued enumeration.
\<close>

datatype ActivationRule = All_rule | Any_rule

record ActivationCondition =
  rule :: ActivationRule
  conditions :: "Condition list"

text \<open>
  The class dictionaries. \<^verbatim>\<open>rule_lookup\<close> holds both directions; a subscript with
  a key that is not in a dictionary raises \<open>KeyError\<close>. \<^verbatim>\<open>condition_lookup\<close> gives the
  class, which the source calls at once to construct a new instance.
\<close>

definition rule_lookup_string :: "string \<Rightarrow> error + ActivationRule" where
  "rule_lookup_string s =
     (if s = ''all'' then Inr All_rule
      else if s = ''any'' then Inr Any_rule
      else Inl (KeyError s))"

fun rule_lookup_enum :: "ActivationRule \<Rightarrow> string" where
  "rule_lookup_enum All_rule = ''all''"
| "rule_lookup_enum Any_rule = ''any''"

definition condition_lookup :: "string \<Rightarrow> error + Condition" where
  "condition_lookup s =
     (if s = ''keyboard'' then Inr KeyboardCondition_init
      else if s = ''joystick'' then Inr JoystickCondition_init
      else if s = ''vjoy'' then Inr VJoyCondition_init
      else if s = ''action'' then Inr InputActionCondition_init
      else Inl (KeyError s))"

text \<open>
  \<^verbatim>\<open>ActivationCondition.from_xml\<close>. The loop appends to \<^verbatim>\<open>self.conditions\<close>; an
  exception leaves the list as it is at that moment, so the result is the error (if any)
  together with the instance.
\<close>

fun from_xml_loop :: "helpers \<Rightarrow> xml_node list \<Rightarrow> Condition list \<Rightarrow> error option \<times> Condition list" where
  "from_xml_loop h [] cs = (None, cs)"
| "from_xml_loop h (cond_node # rest) cs =
     (case safe_read cond_node ''condition-type'' of Inl e \<Rightarrow> (Some e, cs) | Inr condition_type \<Rightarrow>
      case condition_lookup condition_type of Inl e \<Rightarrow> (Some e, cs) | Inr condition \<Rightarrow>
      case from_xml h condition cond_node of Inl e \<Rightarrow> (Some e, cs) | Inr condition' \<Rightarrow>
      from_xml_loop h rest (cs @ [condition']))"

definition ActivationCondition_from_xml ::
    "helpers \<Rightarrow> ActivationCondition \<Rightarrow> xml_node \<Rightarrow> error option \<times> ActivationCondition" where
  "ActivationCondition_from_xml h self node =
     (case safe_read node ''rule'' of Inl e \<Rightarrow> (Some e, self) | Inr s \<Rightarrow>
      case rule_lookup_string s of Inl e \<Rightarrow> (Some e, self) | Inr r \<Rightarrow>
      (let (e, cs) = from_xml_loop h (node_findall node ''condition'') (conditions self)
       in (e, self\<lparr>rule := r, conditions := cs\<rparr>)))"

text \<open>\<^verbatim>\<open>ActivationCondition.to_xml\<close>: only the valid conditions are encoded and appended.\<close>

fun to_xml_loop :: "helpers \<Rightarrow> Condition list \<Rightarrow> xml_node \<Rightarrow> error + xml_node" where
  "to_xml_loop h [] node = Inr node"
| "to_xml_loop h (condition # rest) node =
     (if is_valid condition then
        (case to_xml h condition of
           Inl e \<Rightarrow> Inl e
         | Inr child \<Rightarrow> to_xml_loop h rest (node_append node child))
      else to_xml_loop h rest node)"

definition ActivationCondition_to_xml :: "helpers \<Rightarrow> ActivationCondition \<Rightarrow> error + xml_node" where
  "ActivationCondition_to_xml h self =
     (let node = Element_new ''activation-condition'';
          node = node_set node ''rule'' (rule_lookup_enum (rule self))
      in to_xml_loop h (conditions self) node)"

text \<open>
  Modelled from the spec: \<^verbatim>\<open>evaluate\<close> of the composite (section 4.4), which the source
  file does not hold: the conjunction of the children's outcomes under \<^verbatim>\<open>All\<close>, their
  disjunction under \<^verbatim>\<open>Any\<close>. The outcome of one child against the oracle is the
  parameter \<open>child_evaluate\<close>.
\<close>

definition evaluate :: "('o \<Rightarrow> Condition \<Rightarrow> bool) \<Rightarrow> 'o \<Rightarrow> ActivationCondition \<Rightarrow> bool" where
  "evaluate child_evaluate oracle self =
     (case rule self of
        All_rule \<Rightarrow> fold (\<lambda>c acc. acc \<and> child_evaluate oracle c) (conditions self) True
      | Any_rule \<Rightarrow> fold (\<lambda>c acc. acc \<or> child_evaluate oracle c) (conditions self) False)"

subsection \<open>Auxiliary definitions of the statements\<close>

text \<open>A string of decimal digits only.\<close>

definition all_digits :: "string \<Rightarrow> bool" where
  "all_digits s = list_all (\<lambda>c. digit_val c \<noteq> None) s"

text \<open>
  The helpers of the concrete examples: \<^verbatim>\<open>str\<close> and \<^verbatim>\<open>float\<close> as Python has them on
  the floats -1.0, 0.0 and 1.0, which are the only floats the examples hold, an error
  for \<^verbatim>\<open>InputType.to_string(None)\<close>, and for \<^verbatim>\<open>parse_guid(None)\<close> the \<open>TypeError\<close>
  that Python's \<^verbatim>\<open>uuid.UUID(None)\<close> raises.
\<close>

definition sample_helpers :: helpers where
  "sample_helpers =
     \<lparr>str_float = (\<lambda>x. if x = - 1 then ''-1.0'' else if x = 1 then ''1.0'' else ''0.0''),
      float_of = (\<lambda>s. if s = ''-1.0'' then Some (- 1) else if s = ''1.0'' then Some 1
                       else if s = ''0.0'' then Some 0 else None),
      to_string_none = Inl (KeyError ''None''),
      parse_guid_none = Inl TypeError\<rparr>"


text \<open>
  The new instance \<^verbatim>\<open>condition_lookup[condition_type]()\<close> of the class of a condition,
  and the string \<^verbatim>\<open>condition-type\<close> that selects the class.
\<close>

fun condition_type_of :: "Condition \<Rightarrow> string" where
  "condition_type_of (KeyboardCondition cmp sc ext) = ''keyboard''"
| "condition_type_of (JoystickCondition cmp g it iid rng name) = ''joystick''"
| "condition_type_of (VJoyCondition cmp vid it iid rng) = ''vjoy''"
| "condition_type_of (InputActionCondition cmp) = ''action''"

fun new_instance :: "Condition \<Rightarrow> Condition" where
  "new_instance (KeyboardCondition cmp sc ext) = KeyboardCondition_init"
| "new_instance (JoystickCondition cmp g it iid rng name) = JoystickCondition_init"
| "new_instance (VJoyCondition cmp vid it iid rng) = VJoyCondition_init"
| "new_instance (InputActionCondition cmp) = InputActionCondition_init"

text \<open>
  What decoding the encoding of a condition gives: the condition itself, but for the
  \<^verbatim>\<open>range\<close> of a Joystick or VJoy condition that is not on an axis, which is not written
  and so stays the \<^verbatim>\<open>[0.0, 0.0]\<close> of the constructor.
\<close>

fun decoded :: "Condition \<Rightarrow> Condition" where
  "decoded (JoystickCondition cmp g it iid rng name) =
     JoystickCondition cmp g it iid (if it = Some JoystickAxis then rng else (0, 0)) name"
| "decoded (VJoyCondition cmp vid it iid rng) =
     VJoyCondition cmp vid it iid (if it = Some JoystickAxis then rng else (0, 0))"
| "decoded c = c"

text \<open>
  The conditions whose fields the text form can carry: \<^verbatim>\<open>device_guid\<close> holds a GUID
  (not the integer 0 of the constructor), and the two ends of an axis range are floats
  that \<^verbatim>\<open>float(str(x))\<close> gives back.
\<close>

definition float_round_trips :: "helpers \<Rightarrow> real \<times> real \<Rightarrow> bool" where
  "float_round_trips h rng =
     (float_of h (str_float h (fst rng)) = Some (fst rng)
      \<and> float_of h (str_float h (snd rng)) = Some (snd rng))"

fun representable :: "helpers \<Rightarrow> Condition \<Rightarrow> bool" where
  "representable h (JoystickCondition cmp g it iid rng name) =
     ((case g of PyInt i \<Rightarrow> False | Guid w \<Rightarrow> True)
      \<and> (if it = Some JoystickAxis then float_round_trips h rng else True))"
| "representable h (VJoyCondition cmp vid it iid rng) =
     (if it = Some JoystickAxis then float_round_trips h rng else True)"
| "representable h c = True"

text \<open>The elements of the concrete examples.\<close>

definition keyboard_node :: xml_node where
  "keyboard_node = Element ''condition''
     [(''condition-type'', ''keyboard''), (''input'', ''keyboard''), (''comparison'', ''pressed''),
      (''scan-code'', ''30''), (''extended'', ''False'')] []"

definition action_node :: xml_node where
  "action_node = Element ''condition''
     [(''condition-type'', ''action''), (''input'', ''action''), (''comparison'', ''pressed'')] []"

definition any_node :: xml_node where
  "any_node = Element ''activation-condition'' [(''rule'', ''any'')] [keyboard_node, action_node]"


definition unknown_rule_node :: xml_node where
  "unknown_rule_node = Element ''activation-condition'' [(''rule'', ''none'')] [keyboard_node]"

definition mouse_node :: xml_node where
  "mouse_node = Element ''condition''
     [(''condition-type'', ''mouse''), (''comparison'', ''pressed'')] []"

definition unknown_type_node :: xml_node where
  "unknown_type_node =
     Element ''activation-condition'' [(''rule'', ''all'')] [keyboard_node, mouse_node, action_node]"

text \<open>
  The classes that hold a \<^verbatim>\<open>range\<close>, and an element without its \<^verbatim>\<open>range-low\<close> and
  \<^verbatim>\<open>range-high\<close> attributes.
\<close>

fun has_range :: "Condition \<Rightarrow> bool" where
  "has_range (JoystickCondition cmp g it iid rng name) = True"
| "has_range (VJoyCondition cmp vid it iid rng) = True"
| "has_range c = False"





definition vjoy_button_node :: xml_node where
  "vjoy_button_node = Element ''condition''
     [(''comparison'', ''pressed''), (''condition-type'', ''vjoy''), (''input'', ''button''),
      (''id'', ''2''), (''vjoy-id'', ''1'')] []"


text \<open>
  The body of the loop of \<^verbatim>\<open>ActivationCondition.from_xml\<close> on one child element, up to
  the \<^verbatim>\<open>append\<close>: the condition it decodes, or the error it raises.
\<close>

definition decode_condition :: "helpers \<Rightarrow> xml_node \<Rightarrow> error + Condition" where
  "decode_condition h cond_node =
     (case safe_read cond_node ''condition-type'' of Inl e \<Rightarrow> Inl e | Inr condition_type \<Rightarrow>
      case condition_lookup condition_type of Inl e \<Rightarrow> Inl e | Inr condition \<Rightarrow>
      from_xml h condition cond_node)"

section \<open>Properties\<close>

subsection \<open>Decimal round trip\<close>

lemma digit_val_digit_char: "d < 10 \<Longrightarrow> digit_val (digit_char d) = Some d"
proof -
  assume "d < 10"
  then have "d \<in> {0, 1, 2, 3, 4, 5, 6, 7, 8, 9}" by auto
  then show ?thesis by (auto simp: digit_val_def digit_char_def)
qed

lemma digit_val_not_underscore: "digit_val c = Some v \<Longrightarrow> c \<noteq> CHR ''_''"
  by (auto simp: digit_val_def)

lemma digit_val_not_space: "digit_val c = Some v \<Longrightarrow> \<not> is_space c"
  by (auto simp: digit_val_def is_space_def split: if_splits)

lemma digit_val_not_sign: "digit_val c = Some v \<Longrightarrow> c \<noteq> CHR ''-'' \<and> c \<noteq> CHR ''+''"
  by (auto simp: digit_val_def split: if_splits)

lemma int_digits_snoc:
  "all_digits xs \<Longrightarrow> digit_val c = Some d \<Longrightarrow>
   int_digits (xs @ [c]) acc = map_option (\<lambda>v. 10 * v + d) (int_digits xs acc)"
proof (induction xs arbitrary: acc)
  case Nil
  then show ?case by (simp add: digit_val_not_underscore)
next
  case (Cons x xs)
  from Cons.prems obtain v where v: "digit_val x = Some v" and xs: "all_digits xs"
    by (auto simp: all_digits_def)
  have "x \<noteq> CHR ''_''" using v by (rule digit_val_not_underscore)
  then show ?case using v Cons.IH [OF xs Cons.prems(2)] by simp
qed

lemma int_unsigned_snoc:
  assumes "xs \<noteq> []" "all_digits xs" "digit_val c = Some d"
  shows "int_unsigned (xs @ [c]) = map_option (\<lambda>v. 10 * v + d) (int_unsigned xs)"
proof -
  from assms(1) obtain x xs' where xs: "xs = x # xs'" by (cases xs) auto
  with assms(2) obtain v where v: "digit_val x = Some v" and xs': "all_digits xs'"
    by (auto simp: all_digits_def)
  show ?thesis
    using v int_digits_snoc [OF xs' assms(3)] by (simp add: xs int_unsigned_def)
qed

lemma str_nat_digits: "str_nat n \<noteq> [] \<and> all_digits (str_nat n)"
proof (induction n rule: str_nat.induct)
  case (1 n)
  show ?case
  proof (cases "n < 10")
    case True
    then show ?thesis
      using digit_val_digit_char [of n] by (simp add: str_nat.simps [of n] all_digits_def)
  next
    case False
    then show ?thesis
      using 1 digit_val_digit_char [of "n mod 10"]
      by (simp add: str_nat.simps [of n] all_digits_def)
  qed
qed

lemma int_unsigned_str_nat: "int_unsigned (str_nat n) = Some n"
proof (induction n rule: str_nat.induct)
  case (1 n)
  show ?case
  proof (cases "n < 10")
    case True
    then show ?thesis
      using digit_val_digit_char [of n] by (simp add: str_nat.simps [of n] int_unsigned_def)
  next
    case False
    have d: "digit_val (digit_char (n mod 10)) = Some (n mod 10)"
      by (rule digit_val_digit_char) simp
    have "int_unsigned (str_nat (n div 10) @ [digit_char (n mod 10)])
          = map_option (\<lambda>v. 10 * v + n mod 10) (int_unsigned (str_nat (n div 10)))"
      using str_nat_digits [of "n div 10"] d by (intro int_unsigned_snoc) auto
    then show ?thesis using False 1 by (simp add: str_nat.simps [of n])
  qed
qed

lemma strip_id:
  assumes "s \<noteq> []" "\<not> is_space (hd s)" "\<not> is_space (last s)"
  shows "strip s = s"
proof -
  have a: "dropWhile is_space s = s" using assms(1,2) by (cases s) auto
  have "rev s \<noteq> []" "\<not> is_space (hd (rev s))" using assms(1,3) by (auto simp: hd_rev)
  then have b: "dropWhile is_space (rev s) = rev s" by (cases "rev s") auto
  show ?thesis by (simp add: strip_def a b)
qed

lemma all_digits_hd_last:
  assumes "s \<noteq> []" "all_digits s"
  shows "digit_val (hd s) \<noteq> None \<and> digit_val (last s) \<noteq> None"
  using assms by (auto simp: all_digits_def list_all_iff)

lemma py_int_str_int: "py_int (str_int i) = Some i"
proof -
  let ?n = "if i < 0 then nat (- i) else nat i"
  let ?s = "str_nat ?n"
  have ne: "?s \<noteq> []" and ad: "all_digits ?s" using str_nat_digits [of ?n] by auto
  obtain x xs where s: "?s = x # xs" using ne by (cases ?s) auto
  from all_digits_hd_last [OF ne ad] obtain v w
    where v: "digit_val x = Some v" and w: "digit_val (last ?s) = Some w"
    by (auto simp: s)
  have sp: "\<not> is_space (last ?s)" using w by (rule digit_val_not_space)
  show ?thesis
  proof (cases "i < 0")
    case True
    have "strip (CHR ''-'' # ?s) = CHR ''-'' # ?s"
      using sp ne by (intro strip_id) (auto simp: is_space_def)
    then show ?thesis
      using True int_unsigned_str_nat [of "nat (- i)"] by (simp add: py_int_def str_int_def)
  next
    case False
    have "strip ?s = ?s"
      using sp ne digit_val_not_space [OF v] by (intro strip_id) (auto simp: s)
    then show ?thesis
      using False int_unsigned_str_nat [of "nat i"] digit_val_not_sign [OF v] s
      by (simp add: py_int_def str_int_def)
  qed
qed

subsection \<open>Encoding the composite\<close>

lemma is_valid_to_xml: "is_valid c \<Longrightarrow> \<exists>n. to_xml h c = Inr n"
  by (cases c) (auto simp: InputType_to_string_def Let_def)

lemma to_xml_loop_children:
  "\<exists>n. to_xml_loop h cs node = Inr n \<and> tag n = tag node \<and> attrib n = attrib node
     \<and> map Inr (children n) = map Inr (children node) @ map (to_xml h) (filter is_valid cs)"
proof (induction cs arbitrary: node)
  case Nil
  then show ?case by simp
next
  case (Cons c cs)
  show ?case
  proof (cases "is_valid c")
    case False
    then show ?thesis using Cons.IH [of node] by simp
  next
    case True
    then obtain child where child: "to_xml h c = Inr child"
      using is_valid_to_xml by blast
    show ?thesis
      using True child Cons.IH [of "node_append node child"]
      by (auto simp: node_append_def)
  qed
qed

text \<open>
  Claim C2. For every \<^verbatim>\<open>ActivationCondition\<close>, \<^verbatim>\<open>to_xml\<close> returns an
  \<^verbatim>\<open>activation-condition\<close> element with the \<^verbatim>\<open>rule\<close> attribute, whose children are
  exactly the encodings of the children for which \<^verbatim>\<open>is_valid\<close> holds, in their order;
  the invalid children are left out and raise nothing.
\<close>

theorem to_xml_encodes_valid_children:
  "\<exists>n. ActivationCondition_to_xml h a = Inr n \<and> tag n = ''activation-condition''
     \<and> attrib n = [(''rule'', rule_lookup_enum (rule a))]
     \<and> map Inr (children n) = map (to_xml h) (filter is_valid (conditions a))"
  using to_xml_loop_children [of h "conditions a"
      "node_set (Element_new ''activation-condition'') ''rule'' (rule_lookup_enum (rule a))"]
  by (auto simp: ActivationCondition_to_xml_def Let_def node_set_def Element_new_def)

text \<open>
  Claim C8. Encoding is total: \<^verbatim>\<open>ActivationCondition.to_xml\<close> returns a node for every
  instance and for all helpers. In particular, where \<^verbatim>\<open>to_xml\<close> of a Joystick condition
  with \<^verbatim>\<open>input_type\<close> unset raises (in \<^verbatim>\<open>InputType.to_string\<close>), the
  composite that holds the condition still encodes, to an element with no children.
\<close>

theorem to_xml_total:
  "(\<exists>n. ActivationCondition_to_xml h a = Inr n)
   \<and> to_xml (h\<lparr>to_string_none := Inl e\<rparr>) (JoystickCondition cmp g None iid rng name) = Inl e
   \<and> ActivationCondition_to_xml h \<lparr>rule = r, conditions = [JoystickCondition cmp g None iid rng name]\<rparr>
       = Inr (Element ''activation-condition'' [(''rule'', rule_lookup_enum r)] [])"
proof -
  have "\<exists>n. ActivationCondition_to_xml h a = Inr n"
    using to_xml_loop_children [of h "conditions a"]
    by (auto simp: ActivationCondition_to_xml_def Let_def)
  moreover have "to_xml (h\<lparr>to_string_none := Inl e\<rparr>) (JoystickCondition cmp g None iid rng name) = Inl e"
    by (simp add: InputType_to_string_def Let_def)
  moreover have "ActivationCondition_to_xml h \<lparr>rule = r, conditions = [JoystickCondition cmp g None iid rng name]\<rparr>
       = Inr (Element ''activation-condition'' [(''rule'', rule_lookup_enum r)] [])"
    by (simp add: ActivationCondition_to_xml_def Let_def node_set_def Element_new_def)
  ultimately show ?thesis by blast
qed

subsection \<open>Validity\<close>

text \<open>
  Claim C3. \<^verbatim>\<open>is_valid\<close> holds exactly when \<^verbatim>\<open>comparison\<close> is not the empty string
  and, for a Keyboard condition, \<^verbatim>\<open>scan_code\<close> and \<^verbatim>\<open>is_extended\<close> are set, for a
  Joystick or VJoy condition, \<^verbatim>\<open>input_type\<close> is set; an InputAction condition needs
  nothing more.
\<close>

theorem is_valid_iff:
  "(is_valid (KeyboardCondition cmp sc ext) \<longleftrightarrow> cmp \<noteq> '''' \<and> sc \<noteq> None \<and> ext \<noteq> None)
   \<and> (is_valid (JoystickCondition cmp g it iid rng name) \<longleftrightarrow> cmp \<noteq> '''' \<and> it \<noteq> None)
   \<and> (is_valid (VJoyCondition cmp vid it iid rng) \<longleftrightarrow> cmp \<noteq> '''' \<and> it \<noteq> None)
   \<and> (is_valid (InputActionCondition cmp) \<longleftrightarrow> cmp \<noteq> '''')"
  by (simp add: AbstractCondition_is_valid_def)

subsection \<open>Evaluation\<close>

text \<open>
  Claim C7. Whatever the oracle and the children's evaluator, a composite with no
  conditions evaluates to true under \<^verbatim>\<open>All\<close> and to false under \<^verbatim>\<open>Any\<close>.
\<close>

theorem evaluate_empty:
  "evaluate child_evaluate oracle \<lparr>rule = All_rule, conditions = []\<rparr> = True
   \<and> evaluate child_evaluate oracle \<lparr>rule = Any_rule, conditions = []\<rparr> = False"
  by (simp add: evaluate_def)

subsection \<open>Conditions as constructed\<close>

lemma to_xml_loop_invalid:
  "\<forall>c \<in> set cs. \<not> is_valid c \<Longrightarrow> to_xml_loop h cs node = Inr node"
  by (induction cs) auto

text \<open>
  Claim C10. A condition as its constructor leaves it has the empty \<^verbatim>\<open>comparison\<close> and
  is not valid, in each of the four classes; so a composite whose children are all such
  conditions encodes to an \<^verbatim>\<open>activation-condition\<close> element with no children.
\<close>

theorem new_conditions_are_invalid:
  assumes "set cs \<subseteq> {KeyboardCondition_init, JoystickCondition_init, VJoyCondition_init,
                      InputActionCondition_init}"
  shows "comparison KeyboardCondition_init = '''' \<and> \<not> is_valid KeyboardCondition_init
    \<and> comparison JoystickCondition_init = '''' \<and> \<not> is_valid JoystickCondition_init
    \<and> comparison VJoyCondition_init = '''' \<and> \<not> is_valid VJoyCondition_init
    \<and> comparison InputActionCondition_init = '''' \<and> \<not> is_valid InputActionCondition_init
    \<and> ActivationCondition_to_xml h \<lparr>rule = r, conditions = cs\<rparr>
        = Inr (Element ''activation-condition'' [(''rule'', rule_lookup_enum r)] [])"
proof -
  have inv: "\<not> is_valid KeyboardCondition_init" "\<not> is_valid JoystickCondition_init"
    "\<not> is_valid VJoyCondition_init" "\<not> is_valid InputActionCondition_init"
    by (simp_all add: KeyboardCondition_init_def JoystickCondition_init_def
        VJoyCondition_init_def InputActionCondition_init_def AbstractCondition_is_valid_def)
  have cmp: "comparison KeyboardCondition_init = ''''" "comparison JoystickCondition_init = ''''"
    "comparison VJoyCondition_init = ''''" "comparison InputActionCondition_init = ''''"
    by (simp_all add: KeyboardCondition_init_def JoystickCondition_init_def
        VJoyCondition_init_def InputActionCondition_init_def)
  have "\<forall>c \<in> set cs. \<not> is_valid c" using assms inv by auto
  then have "ActivationCondition_to_xml h \<lparr>rule = r, conditions = cs\<rparr>
        = Inr (Element ''activation-condition'' [(''rule'', rule_lookup_enum r)] [])"
    by (simp add: ActivationCondition_to_xml_def Let_def to_xml_loop_invalid node_set_def
        Element_new_def)
  with inv cmp show ?thesis by simp
qed

theorem new_conditions_are_invalid_witness:
  "set [KeyboardCondition_init, InputActionCondition_init, JoystickCondition_init,
        VJoyCondition_init, KeyboardCondition_init]
     \<subseteq> {KeyboardCondition_init, JoystickCondition_init, VJoyCondition_init,
         InputActionCondition_init}
   \<and> \<not> is_valid JoystickCondition_init
   \<and> ActivationCondition_to_xml sample_helpers
        \<lparr>rule = Any_rule,
         conditions = [KeyboardCondition_init, InputActionCondition_init, JoystickCondition_init,
                       VJoyCondition_init, KeyboardCondition_init]\<rparr>
      = Inr (Element ''activation-condition'' [(''rule'', ''any'')] [])"
  using new_conditions_are_invalid [of "[KeyboardCondition_init, InputActionCondition_init,
      JoystickCondition_init, VJoyCondition_init, KeyboardCondition_init]" sample_helpers Any_rule]
  by simp

subsection \<open>Decoding the composite\<close>

lemma from_xml_loop_step:
  "from_xml_loop h (n # nodes) cs =
     (case decode_condition h n of Inl e \<Rightarrow> (Some e, cs)
      | Inr c' \<Rightarrow> from_xml_loop h nodes (cs @ [c']))"
  by (simp add: decode_condition_def split: sum.splits)

lemma from_xml_loop_decodes:
  "\<exists>new. snd (from_xml_loop h nodes cs) = cs @ new
     \<and> length new \<le> length nodes
     \<and> list_all2 (\<lambda>c n. decode_condition h n = Inr c) new (take (length new) nodes)
     \<and> (fst (from_xml_loop h nodes cs) = None \<longrightarrow> length new = length nodes)
     \<and> (\<forall>e. fst (from_xml_loop h nodes cs) = Some e \<longrightarrow>
           length new < length nodes \<and> decode_condition h (nodes ! length new) = Inl e)"
proof (induction nodes arbitrary: cs)
  case Nil
  then show ?case by simp
next
  case (Cons n nodes)
  show ?case
  proof (cases "decode_condition h n")
    case (Inl e)
    then have "from_xml_loop h (n # nodes) cs = (Some e, cs)"
      by (simp only: from_xml_loop_step sum.case)
    with Inl show ?thesis by simp
  next
    case (Inr c')
    then have go: "from_xml_loop h (n # nodes) cs = from_xml_loop h nodes (cs @ [c'])"
      by (simp only: from_xml_loop_step sum.case)
    from Cons.IH [of "cs @ [c']"] obtain new where new:
      "snd (from_xml_loop h nodes (cs @ [c'])) = cs @ c' # new"
      "length new \<le> length nodes"
      "list_all2 (\<lambda>c n. decode_condition h n = Inr c) new (take (length new) nodes)"
      "fst (from_xml_loop h nodes (cs @ [c'])) = None \<longrightarrow> length new = length nodes"
      "\<forall>e. fst (from_xml_loop h nodes (cs @ [c'])) = Some e \<longrightarrow>
           length new < length nodes \<and> decode_condition h (nodes ! length new) = Inl e"
      by auto
    have "snd (from_xml_loop h (n # nodes) cs) = cs @ (c' # new)
      \<and> length (c' # new) \<le> length (n # nodes)
      \<and> list_all2 (\<lambda>c n. decode_condition h n = Inr c) (c' # new)
           (take (length (c' # new)) (n # nodes))
      \<and> (fst (from_xml_loop h (n # nodes) cs) = None \<longrightarrow> length (c' # new) = length (n # nodes))
      \<and> (\<forall>e. fst (from_xml_loop h (n # nodes) cs) = Some e \<longrightarrow>
           length (c' # new) < length (n # nodes)
           \<and> decode_condition h ((n # nodes) ! length (c' # new)) = Inl e)"
      unfolding go using new Inr by simp
    then show ?thesis by (rule exI)
  qed
qed

text \<open>
  Claim C9. \<^verbatim>\<open>ActivationCondition.from_xml\<close> appends to the conditions the instance
  already holds and never clears them: the list after the call is the list before it
  followed by the decodings of the \<^verbatim>\<open>condition\<close> children of the element, in the
  order of the element. When the call raises nothing there is one for each child;
  when it raises, they are the decodings of the children before the one that failed,
  and the error is that child's (or that of the \<^verbatim>\<open>rule\<close> attribute, and then nothing
  was appended).
\<close>

theorem from_xml_appends:
  "\<exists>new. conditions (snd (ActivationCondition_from_xml h self node)) = conditions self @ new
     \<and> length new \<le> length (node_findall node ''condition'')
     \<and> list_all2 (\<lambda>c n. decode_condition h n = Inr c) new
          (take (length new) (node_findall node ''condition''))
     \<and> (fst (ActivationCondition_from_xml h self node) = None
          \<longrightarrow> list_all2 (\<lambda>c n. decode_condition h n = Inr c) new
                 (node_findall node ''condition''))
     \<and> (\<forall>e. fst (ActivationCondition_from_xml h self node) = Some e \<longrightarrow>
          (new = [] \<and> (safe_read node ''rule'' = Inl e
                        \<or> (\<exists>s. safe_read node ''rule'' = Inr s \<and> rule_lookup_string s = Inl e)))
          \<or> (length new < length (node_findall node ''condition'')
              \<and> decode_condition h (node_findall node ''condition'' ! length new) = Inl e))"
proof (cases "safe_read node ''rule''")
  case (Inl e)
  then show ?thesis by (simp add: ActivationCondition_from_xml_def)
next
  case (Inr s)
  show ?thesis
  proof (cases "rule_lookup_string s")
    case (Inl e)
    then show ?thesis using Inr by (simp add: ActivationCondition_from_xml_def)
  next
    case r: (Inr r)
    let ?nodes = "node_findall node ''condition''"
    obtain e cs where l: "from_xml_loop h ?nodes (conditions self) = (e, cs)"
      by (cases "from_xml_loop h ?nodes (conditions self)")
    from from_xml_loop_decodes [of h ?nodes "conditions self"] l obtain new where new:
      "cs = conditions self @ new"
      "length new \<le> length ?nodes"
      "list_all2 (\<lambda>c n. decode_condition h n = Inr c) new (take (length new) ?nodes)"
      "e = None \<longrightarrow> length new = length ?nodes"
      "\<forall>e'. e = Some e' \<longrightarrow>
           length new < length ?nodes \<and> decode_condition h (?nodes ! length new) = Inl e'"
      by auto
    have res: "ActivationCondition_from_xml h self node = (e, self\<lparr>rule := r, conditions := cs\<rparr>)"
      using Inr r l by (simp add: ActivationCondition_from_xml_def)
    have f: "fst (ActivationCondition_from_xml h self node) = e"
      by (simp only: res fst_conv)
    have c1: "conditions (snd (ActivationCondition_from_xml h self node)) = conditions self @ new"
      by (simp add: res new(1))
    have c4: "fst (ActivationCondition_from_xml h self node) = None
          \<longrightarrow> list_all2 (\<lambda>c n. decode_condition h n = Inr c) new ?nodes"
      unfolding f using new(3,4) by auto
    have c5: "\<forall>e. fst (ActivationCondition_from_xml h self node) = Some e \<longrightarrow>
          (new = [] \<and> (safe_read node ''rule'' = Inl e
                        \<or> (\<exists>s. safe_read node ''rule'' = Inr s \<and> rule_lookup_string s = Inl e)))
          \<or> (length new < length ?nodes
              \<and> decode_condition h (?nodes ! length new) = Inl e)"
      unfolding f using new(5) by blast
    show ?thesis
      apply (rule exI [of _ new])
      apply (intro conjI)
          apply (rule c1)
         apply (rule new(2))
        apply (rule new(3))
       apply (rule c4)
      apply (rule c5)
      done
  qed
qed

lemma from_xml_keyboard_node:
  "from_xml sample_helpers KeyboardCondition_init keyboard_node
     = Inr (KeyboardCondition ''pressed'' (Some 30) (Some False))"
  by (simp add: keyboard_node_def safe_read_def safe_read_cast_def node_get_def
      KeyboardCondition_init_def py_int_def strip_def is_space_def int_unsigned_def
      digit_val_def parse_bool_def lower_char_def)

lemma from_xml_action_node:
  "from_xml sample_helpers InputActionCondition_init action_node
     = Inr (InputActionCondition ''pressed'')"
  by (simp add: action_node_def safe_read_def node_get_def InputActionCondition_init_def)

lemma from_xml_loop_any_node:
  "from_xml_loop sample_helpers [keyboard_node, action_node] cs
     = (None, cs @ [KeyboardCondition ''pressed'' (Some 30) (Some False),
                    InputActionCondition ''pressed''])"
proof -
  have "safe_read keyboard_node ''condition-type'' = Inr ''keyboard''"
    "safe_read action_node ''condition-type'' = Inr ''action''"
    by (simp_all add: keyboard_node_def action_node_def safe_read_def node_get_def)
  then show ?thesis
    by (simp add: condition_lookup_def from_xml_keyboard_node from_xml_action_node)
qed

lemma findall_any_node: "node_findall any_node ''condition'' = [keyboard_node, action_node]"
  by (simp add: any_node_def node_findall_def keyboard_node_def action_node_def)

lemma from_xml_any_node:
  "ActivationCondition_from_xml sample_helpers
     \<lparr>rule = All_rule, conditions = [InputActionCondition ''released'']\<rparr> any_node
   = (None, \<lparr>rule = Any_rule,
             conditions = [InputActionCondition ''released'',
                           KeyboardCondition ''pressed'' (Some 30) (Some False),
                           InputActionCondition ''pressed'']\<rparr>)"
proof -
  have r1: "safe_read any_node ''rule'' = Inr ''any''"
    by (simp add: any_node_def safe_read_def node_get_def)
  have r2: "rule_lookup_string ''any'' = Inr Any_rule"
    by (simp add: rule_lookup_string_def)
  show ?thesis
    by (simp only: ActivationCondition_from_xml_def r1 r2 findall_any_node sum.case
        from_xml_loop_any_node Let_def prod.case) simp
qed


lemma decode_keyboard_node:
  "decode_condition sample_helpers keyboard_node
     = Inr (KeyboardCondition ''pressed'' (Some 30) (Some False))"
proof -
  have "safe_read keyboard_node ''condition-type'' = Inr ''keyboard''"
    by (simp add: keyboard_node_def safe_read_def node_get_def)
  then show ?thesis
    by (simp add: decode_condition_def condition_lookup_def from_xml_keyboard_node)
qed

lemma decode_action_node:
  "decode_condition sample_helpers action_node = Inr (InputActionCondition ''pressed'')"
proof -
  have "safe_read action_node ''condition-type'' = Inr ''action''"
    by (simp add: action_node_def safe_read_def node_get_def)
  then show ?thesis
    by (simp add: decode_condition_def condition_lookup_def from_xml_action_node)
qed

theorem from_xml_appends_witness:
  "fst (ActivationCondition_from_xml sample_helpers
          \<lparr>rule = All_rule, conditions = [InputActionCondition ''released'']\<rparr> any_node) = None
   \<and> node_findall any_node ''condition'' = [keyboard_node, action_node]
   \<and> conditions (snd (ActivationCondition_from_xml sample_helpers
          \<lparr>rule = All_rule, conditions = [InputActionCondition ''released'']\<rparr> any_node))
        = [InputActionCondition ''released'',
           KeyboardCondition ''pressed'' (Some 30) (Some False),
           InputActionCondition ''pressed'']"
proof -
  let ?self = "\<lparr>rule = All_rule, conditions = [InputActionCondition ''released'']\<rparr>"
  let ?P = "\<lambda>c n. decode_condition sample_helpers n = Inr c"
  have ok: "fst (ActivationCondition_from_xml sample_helpers ?self any_node) = None"
    by (simp only: from_xml_any_node fst_conv)
  from from_xml_appends [of sample_helpers ?self any_node] obtain new where
    app: "conditions (snd (ActivationCondition_from_xml sample_helpers ?self any_node))
       = conditions ?self @ new"
    and all: "fst (ActivationCondition_from_xml sample_helpers ?self any_node) = None
       \<longrightarrow> list_all2 ?P new (node_findall any_node ''condition'')"
    by (elim exE conjE)
  from all ok have "list_all2 ?P new (node_findall any_node ''condition'')"
    by (rule mp)
  then have "list_all2 ?P new [keyboard_node, action_node]"
    by (simp only: findall_any_node)
  then obtain a b where new: "new = [a, b]"
    and a: "decode_condition sample_helpers keyboard_node = Inr a"
    and b: "decode_condition sample_helpers action_node = Inr b"
    by (auto simp only: list_all2_Cons2 list_all2_Nil2)
  from a have a': "a = KeyboardCondition ''pressed'' (Some 30) (Some False)"
    by (simp only: decode_keyboard_node sum.inject)
  from b have b': "b = InputActionCondition ''pressed''"
    by (simp only: decode_action_node sum.inject)
  have c: "conditions ?self = [InputActionCondition ''released'']"
    by simp
  have "conditions (snd (ActivationCondition_from_xml sample_helpers ?self any_node))
        = [InputActionCondition ''released'',
           KeyboardCondition ''pressed'' (Some 30) (Some False),
           InputActionCondition ''pressed'']"
    by (simp only: app c new a' b' append.simps)
  with ok findall_any_node show ?thesis by (intro conjI)
qed

subsection \<open>GUID round trip\<close>

lemma hex_digits_table: "list_all (\<lambda>d. hex_val (hex_char d) = Some d) [0..<16]"
  by code_simp

lemma hex_val_hex_char: "d < 16 \<Longrightarrow> hex_val (hex_char d) = Some d"
  using hex_digits_table by (simp add: list_all_iff)

lemma of_hex_append:
  "of_hex (xs @ ys) acc = (case of_hex xs acc of None \<Rightarrow> None | Some v \<Rightarrow> of_hex ys v)"
  by (induction xs arbitrary: acc) (auto split: option.splits)

lemma length_to_hex: "length (to_hex k n) = k"
  by (induction k arbitrary: n) auto

lemma of_hex_to_hex: "of_hex (to_hex k n) acc = Some (acc * 16 ^ k + n mod 16 ^ k)"
proof (induction k arbitrary: n)
  case 0
  then show ?case by simp
next
  case (Suc k)
  have m: "n mod 16 ^ Suc k = 16 * (n div 16 mod 16 ^ k) + n mod 16"
    using mod_mult2_eq [of n 16 "16 ^ k"] by simp
  have d: "hex_val (hex_char (n mod 16)) = Some (n mod 16)"
    by (rule hex_val_hex_char) simp
  have "of_hex (to_hex (Suc k) n) acc
      = of_hex [hex_char (n mod 16)] (acc * 16 ^ k + n div 16 mod 16 ^ k)"
    by (simp add: of_hex_append Suc.IH)
  also have "\<dots> = Some (16 * (acc * 16 ^ k + n div 16 mod 16 ^ k) + n mod 16)"
    by (simp add: d)
  also have "16 * (acc * 16 ^ k + n div 16 mod 16 ^ k) + n mod 16
      = acc * 16 ^ Suc k + n mod 16 ^ Suc k"
    unfolding m by (simp add: algebra_simps)
  finally show ?case .
qed

lemma word_of_unat_mod: "word_of_nat (unat (g :: guid) mod 16 ^ 32) = g"
proof -
  have "unat g < 2 ^ 128" using unsigned_less [of g] by simp
  moreover have "(16::nat) ^ 32 = 2 ^ 128" by simp
  ultimately have "unat g mod 16 ^ 32 = unat g" by simp
  then show ?thesis by simp
qed

lemma unbrace_braces: "unbrace (CHR ''{'' # xs @ [CHR ''}'']) = xs"
  by (simp add: unbrace_def butlast_append)

lemma parse_guid_str_guid: "parse_guid h (Some (str_guid g)) = Inr g"
proof -
  define h where "h = to_hex 32 (unat g)"
  define a b c d e where "a = take 8 h" and "b = take 4 (drop 8 h)" and "c = take 4 (drop 12 h)"
    and "d = take 4 (drop 16 h)" and "e = drop 20 h"
  have len: "length h = 32" by (simp add: h_def length_to_hex)
  have lens: "length a = 8" "length b = 4" "length c = 4" "length d = 4" "length e = 12"
    by (simp_all add: a_def b_def c_def d_def e_def len)
  have "a @ b @ c @ d @ e = take 8 h @ take 4 (drop 8 h) @ take 4 (drop 12 h) @ take 4 (drop 16 h) @ drop 20 h"
    by (simp add: a_def b_def c_def d_def e_def)
  also have "\<dots> = h"
  proof -
    have e1: "take 4 (drop 16 h) @ drop 20 h = drop 16 h"
      using append_take_drop_id [of 4 "drop 16 h"] by simp
    have e2: "take 4 (drop 12 h) @ drop 16 h = drop 12 h"
      using append_take_drop_id [of 4 "drop 12 h"] by simp
    have e3: "take 4 (drop 8 h) @ drop 12 h = drop 8 h"
      using append_take_drop_id [of 4 "drop 8 h"] by simp
    show ?thesis unfolding e1 e2 e3 by (rule append_take_drop_id)
  qed
  finally have h: "a @ b @ c @ d @ e = h" .
  let ?t = "a @ CHR ''-'' # b @ CHR ''-'' # c @ CHR ''-'' # d @ CHR ''-'' # e"
  have sg: "str_guid g = CHR ''{'' # ?t @ [CHR ''}'']"
    by (simp add: str_guid_def Let_def h_def a_def b_def c_def d_def e_def)
  have t8: "?t ! 8 = CHR ''-''" "?t ! 13 = CHR ''-''" "?t ! 18 = CHR ''-''" "?t ! 23 = CHR ''-''"
    using lens by (simp_all add: nth_append nth_Cons')
  have parts: "take 8 ?t = a" "take 4 (drop 9 ?t) = b" "take 4 (drop 14 ?t) = c"
    "take 4 (drop 19 ?t) = d" "drop 24 ?t = e"
    using lens by simp_all
  have lt: "length ?t = 36" using lens by simp
  have "of_hex (a @ b @ c @ d @ e) 0 = Some (unat g mod 16 ^ 32)"
    unfolding h by (simp add: h_def of_hex_to_hex)
  then show ?thesis
    unfolding sg parse_guid_def
    by (simp only: option.case unbrace_braces Let_def lt t8 parts simp_thms if_True word_of_unat_mod)
qed

subsection \<open>Decoding a condition\<close>




















subsection \<open>Unknown rule and unknown condition type\<close>

lemma from_xml_loop_append:
  "from_xml_loop h pre cs = (None, cs') \<Longrightarrow>
   from_xml_loop h (pre @ rest) cs = from_xml_loop h rest cs'"
proof (induction pre arbitrary: cs)
  case Nil
  then show ?case by simp
next
  case (Cons n pre)
  show ?case
  proof (cases "safe_read n ''condition-type''")
    case (Inl e)
    with Cons.prems show ?thesis by simp
  next
    case t: (Inr t)
    show ?thesis
    proof (cases "condition_lookup t")
      case (Inl e)
      with t Cons.prems show ?thesis by simp
    next
      case c0: (Inr c0)
      show ?thesis
      proof (cases "from_xml h c0 n")
        case (Inl e)
        with t c0 Cons.prems show ?thesis by simp
      next
        case c': (Inr c')
        with t c0 Cons.prems have "from_xml_loop h pre (cs @ [c']) = (None, cs')" by simp
        from Cons.IH [OF this] t c0 c' show ?thesis by simp
      qed
    qed
  qed
qed

lemma from_xml_loop_unknown_type:
  assumes "node_get bad ''condition-type'' = Some t"
    and "t \<noteq> ''keyboard''" "t \<noteq> ''joystick''" "t \<noteq> ''vjoy''" "t \<noteq> ''action''"
  shows "from_xml_loop h (bad # post) cs = (Some (KeyError t), cs)"
  using assms by (simp add: safe_read_def condition_lookup_def)

text \<open>
  Claim C4, as the code has it. \<^verbatim>\<open>rule_lookup\<close> and \<^verbatim>\<open>condition_lookup\<close> are plain
  dictionaries and the source subscripts them directly: a \<^verbatim>\<open>rule\<close> attribute other
  than \<^verbatim>\<open>all\<close> and \<^verbatim>\<open>any\<close> makes \<^verbatim>\<open>from_xml\<close> fail with a \<open>KeyError\<close> that carries
  the string, before the instance is touched; a \<^verbatim>\<open>condition-type\<close> other than the four
  known ones, on the first child that does not decode, makes it fail with a \<open>KeyError\<close>
  that carries the string, after \<^verbatim>\<open>rule\<close> is assigned and the children before it are
  appended. Neither is a \<open>SchemaError\<close>, and neither names an element or an attribute.
\<close>

theorem unknown_rule_or_type_is_KeyError:
  "(node_get node ''rule'' = Some s \<and> s \<noteq> ''all'' \<and> s \<noteq> ''any''
      \<longrightarrow> ActivationCondition_from_xml h self node = (Some (KeyError s), self))
   \<and> (node_get node ''rule'' = Some s \<and> rule_lookup_string s = Inr r
       \<and> node_findall node ''condition'' = pre @ bad # post
       \<and> from_xml_loop h pre (conditions self) = (None, cs)
       \<and> node_get bad ''condition-type'' = Some t
       \<and> t \<noteq> ''keyboard'' \<and> t \<noteq> ''joystick'' \<and> t \<noteq> ''vjoy'' \<and> t \<noteq> ''action''
      \<longrightarrow> ActivationCondition_from_xml h self node
            = (Some (KeyError t), self\<lparr>rule := r, conditions := cs\<rparr>))"
proof (intro conjI impI)
  assume "node_get node ''rule'' = Some s \<and> s \<noteq> ''all'' \<and> s \<noteq> ''any''"
  then show "ActivationCondition_from_xml h self node = (Some (KeyError s), self)"
    by (simp add: ActivationCondition_from_xml_def safe_read_def rule_lookup_string_def)
next
  assume a: "node_get node ''rule'' = Some s \<and> rule_lookup_string s = Inr r
       \<and> node_findall node ''condition'' = pre @ bad # post
       \<and> from_xml_loop h pre (conditions self) = (None, cs)
       \<and> node_get bad ''condition-type'' = Some t
       \<and> t \<noteq> ''keyboard'' \<and> t \<noteq> ''joystick'' \<and> t \<noteq> ''vjoy'' \<and> t \<noteq> ''action''"
  then have "from_xml_loop h (bad # post) cs = (Some (KeyError t), cs)"
    by (intro from_xml_loop_unknown_type) simp_all
  moreover from a have "from_xml_loop h (pre @ bad # post) (conditions self)
      = from_xml_loop h (bad # post) cs"
    by (intro from_xml_loop_append) simp
  ultimately have "from_xml_loop h (node_findall node ''condition'') (conditions self)
      = (Some (KeyError t), cs)"
    using a by simp
  with a show "ActivationCondition_from_xml h self node
            = (Some (KeyError t), self\<lparr>rule := r, conditions := cs\<rparr>)"
    by (simp add: ActivationCondition_from_xml_def safe_read_def)
qed

lemma from_xml_loop_keyboard_node:
  "from_xml_loop sample_helpers [keyboard_node] cs
     = (None, cs @ [KeyboardCondition ''pressed'' (Some 30) (Some False)])"
proof -
  have "safe_read keyboard_node ''condition-type'' = Inr ''keyboard''"
    by (simp add: keyboard_node_def safe_read_def node_get_def)
  then show ?thesis
    by (simp add: condition_lookup_def from_xml_keyboard_node)
qed

lemma findall_unknown_type_node:
  "node_findall unknown_type_node ''condition'' = [keyboard_node] @ mouse_node # [action_node]"
  by (simp add: unknown_type_node_def node_findall_def keyboard_node_def action_node_def
      mouse_node_def)

lemma mouse_node_type: "node_get mouse_node ''condition-type'' = Some ''mouse''"
  by (simp add: mouse_node_def node_get_def)

theorem unknown_rule_or_type_is_KeyError_witness:
  "ActivationCondition_from_xml sample_helpers
      \<lparr>rule = Any_rule, conditions = [InputActionCondition ''released'']\<rparr> unknown_rule_node
     = (Some (KeyError ''none''), \<lparr>rule = Any_rule, conditions = [InputActionCondition ''released'']\<rparr>)
   \<and> ActivationCondition_from_xml sample_helpers \<lparr>rule = Any_rule, conditions = []\<rparr> unknown_type_node
     = (Some (KeyError ''mouse''),
        \<lparr>rule = All_rule, conditions = [KeyboardCondition ''pressed'' (Some 30) (Some False)]\<rparr>)"
proof -
  let ?self1 = "\<lparr>rule = Any_rule, conditions = [InputActionCondition ''released'']\<rparr>"
  let ?self2 = "\<lparr>rule = Any_rule, conditions = []\<rparr> :: ActivationCondition"
  let ?kb = "KeyboardCondition ''pressed'' (Some 30) (Some False)"
  have p1: "node_get unknown_rule_node ''rule'' = Some ''none'' \<and> ''none'' \<noteq> ''all''
      \<and> ''none'' \<noteq> ''any''"
    by (simp add: unknown_rule_node_def node_get_def)
  have r1: "ActivationCondition_from_xml sample_helpers ?self1 unknown_rule_node
      = (Some (KeyError ''none''), ?self1)"
    using unknown_rule_or_type_is_KeyError [where node = unknown_rule_node and s = "''none''"
        and h = sample_helpers and self = ?self1, THEN conjunct1] p1
    by (rule mp)
  have a: "node_get unknown_type_node ''rule'' = Some ''all''"
    by (simp add: unknown_type_node_def node_get_def)
  have b: "rule_lookup_string ''all'' = Inr All_rule"
    by (simp add: rule_lookup_string_def)
  have c: "from_xml_loop sample_helpers [keyboard_node] (conditions ?self2) = (None, [?kb])"
    by (simp add: from_xml_loop_keyboard_node del: from_xml_loop.simps)
  have d: "''mouse'' \<noteq> ''keyboard'' \<and> ''mouse'' \<noteq> ''joystick'' \<and> ''mouse'' \<noteq> ''vjoy''
      \<and> ''mouse'' \<noteq> ''action''"
    by simp
  have p2: "node_get unknown_type_node ''rule'' = Some ''all'' \<and> rule_lookup_string ''all'' = Inr All_rule
       \<and> node_findall unknown_type_node ''condition'' = [keyboard_node] @ mouse_node # [action_node]
       \<and> from_xml_loop sample_helpers [keyboard_node] (conditions ?self2) = (None, [?kb])
       \<and> node_get mouse_node ''condition-type'' = Some ''mouse''
       \<and> ''mouse'' \<noteq> ''keyboard'' \<and> ''mouse'' \<noteq> ''joystick'' \<and> ''mouse'' \<noteq> ''vjoy''
       \<and> ''mouse'' \<noteq> ''action''"
    using a b findall_unknown_type_node c mouse_node_type d by (intro conjI) (elim conjE, assumption)+
  have "ActivationCondition_from_xml sample_helpers ?self2 unknown_type_node
      = (Some (KeyError ''mouse''), ?self2\<lparr>rule := All_rule, conditions := [?kb]\<rparr>)"
    using unknown_rule_or_type_is_KeyError [where node = unknown_type_node and s = "''all''"
        and r = All_rule and pre = "[keyboard_node]" and bad = mouse_node
        and post = "[action_node]" and h = sample_helpers and self = ?self2
        and cs = "[?kb]" and t = "''mouse''", THEN conjunct2] p2
    by (rule mp)
  then have r2: "ActivationCondition_from_xml sample_helpers ?self2 unknown_type_node
      = (Some (KeyError ''mouse''), \<lparr>rule = All_rule, conditions = [?kb]\<rparr>)"
    by simp
  from r1 r2 show ?thesis by (rule conjI)
qed

text \<open>
  The claim as stated fails: decoding an element whose rule is \<^verbatim>\<open>none\<close>, and one with a
  child of condition type \<^verbatim>\<open>mouse\<close>, ends in a \<open>KeyError\<close>.
\<close>

theorem unknown_rule_and_type_counterexample:
  "fst (ActivationCondition_from_xml sample_helpers \<lparr>rule = All_rule, conditions = []\<rparr>
          unknown_rule_node) = Some (KeyError ''none'')
   \<and> fst (ActivationCondition_from_xml sample_helpers \<lparr>rule = All_rule, conditions = []\<rparr>
          unknown_type_node) = Some (KeyError ''mouse'')"
proof -
  have r1: "safe_read unknown_rule_node ''rule'' = Inr ''none''"
    by (simp add: unknown_rule_node_def safe_read_def node_get_def)
  have r2: "rule_lookup_string ''none'' = Inl (KeyError ''none'')"
    by (simp add: rule_lookup_string_def)
  have one: "fst (ActivationCondition_from_xml sample_helpers \<lparr>rule = All_rule, conditions = []\<rparr>
          unknown_rule_node) = Some (KeyError ''none'')"
    by (simp only: ActivationCondition_from_xml_def r1 r2 sum.case fst_conv)
  have t1: "safe_read unknown_type_node ''rule'' = Inr ''all''"
    by (simp add: unknown_type_node_def safe_read_def node_get_def)
  have t2: "rule_lookup_string ''all'' = Inr All_rule"
    by (simp add: rule_lookup_string_def)
  have m: "safe_read mouse_node ''condition-type'' = Inr ''mouse''"
    by (simp add: mouse_node_def safe_read_def node_get_def)
  have k: "safe_read keyboard_node ''condition-type'' = Inr ''keyboard''"
    by (simp add: keyboard_node_def safe_read_def node_get_def)
  have lk: "condition_lookup ''mouse'' = Inl (KeyError ''mouse'')"
    "condition_lookup ''keyboard'' = Inr KeyboardCondition_init"
    by (simp_all add: condition_lookup_def)
  have loop: "from_xml_loop sample_helpers [keyboard_node, mouse_node, action_node] []
      = (Some (KeyError ''mouse''), [KeyboardCondition ''pressed'' (Some 30) (Some False)])"
    by (simp only: from_xml_loop.simps k m lk from_xml_keyboard_node sum.case append_Nil)
  have f: "node_findall unknown_type_node ''condition'' = [keyboard_node, mouse_node, action_node]"
    using findall_unknown_type_node by simp
  have two: "fst (ActivationCondition_from_xml sample_helpers \<lparr>rule = All_rule, conditions = []\<rparr>
          unknown_type_node) = Some (KeyError ''mouse'')"
    by (simp only: ActivationCondition_from_xml_def t1 t2 f sum.case) (simp add: loop del: from_xml_loop.simps)
  from one two show ?thesis by (rule conjI)
qed

subsection \<open>The range attributes\<close>

lemma node_get_node_set:
  "node_get (node_set n k v) k' = (if k' = k then Some v else node_get n k')"
  by (simp add: node_get_def node_set_def update_conv')















subsection \<open>Round trip\<close>

lemma to_enum_string: "InputType_to_enum (InputType_string it) = Inr it"
  by (cases it) (simp_all add: InputType_to_enum_def)

lemma parse_bool_str_bool: "parse_bool (str_bool b) = Inr b"
  by (cases b) (simp_all add: parse_bool_def str_bool_def lower_char_def)

lemma safe_read_node_set:
  "safe_read (node_set n k v) k' = (if k' = k then Inr v else safe_read n k')"
  by (simp add: safe_read_def node_get_node_set)

lemma safe_read_cast_node_set:
  "safe_read_cast (node_set n k v) k' f
     = (if k' = k then (case f v of None \<Rightarrow> Inl (SchemaError k' Malformed) | Some x \<Rightarrow> Inr x)
        else safe_read_cast n k' f)"
  by (simp add: safe_read_cast_def safe_read_node_set)

lemma round_trip_keyboard:
  "to_xml h (KeyboardCondition cmp (Some sc) (Some ext)) = Inr n \<Longrightarrow>
   from_xml h KeyboardCondition_init n = Inr (KeyboardCondition cmp (Some sc) (Some ext))"
  by (auto simp: Let_def KeyboardCondition_init_def safe_read_node_set safe_read_cast_node_set
      str_opt_def py_int_str_int parse_bool_str_bool)

lemma round_trip_action:
  "to_xml h (InputActionCondition cmp) = Inr n \<Longrightarrow>
   from_xml h InputActionCondition_init n = Inr (InputActionCondition cmp)"
  by (auto simp: Let_def InputActionCondition_init_def safe_read_node_set)

lemma round_trip_vjoy:
  assumes "to_xml h (VJoyCondition cmp vid (Some it) iid rng) = Inr n"
    and "it = JoystickAxis \<Longrightarrow> float_round_trips h rng"
  shows "from_xml h VJoyCondition_init n
     = Inr (VJoyCondition cmp vid (Some it) iid (if it = JoystickAxis then rng else (0, 0)))"
proof (cases "it = JoystickAxis")
  case True
  with assms(2) have f: "float_of h (str_float h (fst rng)) = Some (fst rng)"
    "float_of h (str_float h (snd rng)) = Some (snd rng)"
    by (simp_all add: float_round_trips_def)
  from assms(1) True show ?thesis
    by (auto simp: Let_def VJoyCondition_init_def safe_read_node_set safe_read_cast_node_set
      InputType_to_string_def InputType_to_enum_def py_int_str_int f)
next
  case False
  with assms(1) show ?thesis
    by (auto simp: Let_def VJoyCondition_init_def safe_read_node_set safe_read_cast_node_set
      InputType_to_string_def to_enum_string py_int_str_int)
qed

lemma round_trip_joystick:
  assumes "to_xml h (JoystickCondition cmp (Guid g) (Some it) iid rng name) = Inr n"
    and "it = JoystickAxis \<Longrightarrow> float_round_trips h rng"
  shows "from_xml h JoystickCondition_init n
     = Inr (JoystickCondition cmp (Guid g) (Some it) iid
              (if it = JoystickAxis then rng else (0, 0)) name)"
proof (cases "it = JoystickAxis")
  case True
  with assms(2) have f: "float_of h (str_float h (fst rng)) = Some (fst rng)"
    "float_of h (str_float h (snd rng)) = Some (snd rng)"
    by (simp_all add: float_round_trips_def)
  from assms(1) True show ?thesis
    by (auto simp: Let_def JoystickCondition_init_def safe_read_node_set safe_read_cast_node_set
      node_get_node_set str_guid_value_def parse_guid_str_guid
      InputType_to_string_def InputType_to_enum_def py_int_str_int f)
next
  case False
  with assms(1) show ?thesis
    by (auto simp: Let_def JoystickCondition_init_def safe_read_node_set safe_read_cast_node_set
      node_get_node_set str_guid_value_def parse_guid_str_guid
      InputType_to_string_def to_enum_string py_int_str_int)
qed

lemma round_trip_condition:
  assumes "is_valid c" and "representable h c" and "to_xml h c = Inr n"
  shows "from_xml h (new_instance c) n = Inr (decoded c)"
proof (cases c)
  case (KeyboardCondition cmp sc ext)
  with assms(1) obtain s b where "sc = Some s" "ext = Some b" by auto
  with assms(3) KeyboardCondition show ?thesis
    using round_trip_keyboard [of h cmp s b n] by simp
next
  case (JoystickCondition cmp gv it iid rng name)
  with assms(1) obtain t where t: "it = Some t" by auto
  from assms(2) JoystickCondition obtain g where g: "gv = Guid g"
    by (cases gv) simp_all
  from assms(2) have f: "t = JoystickAxis \<Longrightarrow> float_round_trips h rng"
    by (simp add: JoystickCondition t)
  from round_trip_joystick [OF assms(3) [unfolded JoystickCondition t g] f]
  show ?thesis by (simp add: JoystickCondition t g)
next
  case (VJoyCondition cmp vid it iid rng)
  with assms(1) obtain t where t: "it = Some t" by auto
  from assms(2) have f: "t = JoystickAxis \<Longrightarrow> float_round_trips h rng"
    by (simp add: VJoyCondition t)
  from round_trip_vjoy [OF assms(3) [unfolded VJoyCondition t] f]
  show ?thesis by (simp add: VJoyCondition t)
next
  case (InputActionCondition cmp)
  with assms(3) show ?thesis using round_trip_action [of h cmp n] by simp
qed

lemma tag_node_set: "tag (node_set n k v) = tag n"
  by (simp add: node_set_def)

lemma tag_Element_new: "tag (Element_new t) = t"
  by (simp add: Element_new_def)

lemma to_xml_condition_type:
  "to_xml h c = Inr n \<Longrightarrow>
   tag n = ''condition'' \<and> safe_read n ''condition-type'' = Inr (condition_type_of c)"
  by (cases c)
    (auto simp: Let_def safe_read_node_set tag_node_set tag_Element_new
      split: sum.splits if_splits)

lemma condition_lookup_type: "condition_lookup (condition_type_of c) = Inr (new_instance c)"
  by (cases c) (simp_all add: condition_lookup_def)

lemma decode_encoded:
  assumes "is_valid c" and "representable h c" and "to_xml h c = Inr n"
  shows "decode_condition h n = Inr (decoded c)"
  using to_xml_condition_type [OF assms(3)] round_trip_condition [OF assms]
  by (simp add: decode_condition_def condition_lookup_type)

lemma from_xml_loop_all:
  "list_all2 (\<lambda>n c. decode_condition h n = Inr c) nodes ds \<Longrightarrow>
   from_xml_loop h nodes cs = (None, cs @ ds)"
proof (induction nodes ds arbitrary: cs rule: list_all2_induct)
  case Nil
  then show ?case by simp
next
  case (Cons n nodes c ds)
  from Cons.hyps(1) have "from_xml_loop h (n # nodes) cs = from_xml_loop h nodes (cs @ [c])"
    by (simp only: from_xml_loop_step sum.case)
  with Cons.IH [of "cs @ [c]"] show ?case by simp
qed

lemma decode_encoded_list:
  "map Inr ns = map (to_xml h) vs \<Longrightarrow> \<forall>c\<in>set vs. is_valid c \<and> representable h c \<Longrightarrow>
   list_all2 (\<lambda>n c. decode_condition h n = Inr c) ns (map decoded vs)
   \<and> filter (\<lambda>n. tag n = ''condition'') ns = ns"
proof (induction vs arbitrary: ns)
  case Nil
  then show ?case by simp
next
  case (Cons c vs)
  from Cons.prems(1) obtain n ns' where ns: "ns = n # ns'" by (cases ns) simp_all
  from Cons.prems(1) have n: "to_xml h c = Inr n" and rest: "map Inr ns' = map (to_xml h) vs"
    by (simp_all add: ns)
  from Cons.prems(2) have v: "is_valid c" "representable h c"
    and vs: "\<forall>c\<in>set vs. is_valid c \<and> representable h c" by simp_all
  from Cons.IH [OF rest vs] decode_encoded [OF v n] to_xml_condition_type [OF n]
  show ?case by (simp add: ns)
qed

lemma rule_lookup_round_trip: "rule_lookup_string (rule_lookup_enum r) = Inr r"
  by (cases r) (simp_all add: rule_lookup_string_def)

lemma round_trip_composite:
  assumes "\<forall>c\<in>set (conditions a). is_valid c \<longrightarrow> representable h c"
  shows "\<exists>n. ActivationCondition_to_xml h a = Inr n
     \<and> ActivationCondition_from_xml h \<lparr>rule = r0, conditions = []\<rparr> n
        = (None, \<lparr>rule = rule a, conditions = map decoded (filter is_valid (conditions a))\<rparr>)"
proof -
  let ?node = "node_set (Element_new ''activation-condition'') ''rule'' (rule_lookup_enum (rule a))"
  from to_xml_loop_children [of h "conditions a" ?node] obtain n where
    n: "to_xml_loop h (conditions a) ?node = Inr n"
    and a: "attrib n = attrib ?node"
    and c: "map Inr (children n) = map Inr (children ?node)
              @ map (to_xml h) (filter is_valid (conditions a))"
    by (elim exE conjE)
  have e: "ActivationCondition_to_xml h a = Inr n"
    using n by (simp add: ActivationCondition_to_xml_def Let_def)
  have c': "map Inr (children n) = map (to_xml h) (filter is_valid (conditions a))"
    using c by (simp add: node_set_def Element_new_def)
  have v: "\<forall>c\<in>set (filter is_valid (conditions a)). is_valid c \<and> representable h c"
    using assms by simp
  from decode_encoded_list [OF c' v]
  have d: "list_all2 (\<lambda>n c. decode_condition h n = Inr c) (children n)
         (map decoded (filter is_valid (conditions a)))"
    and f: "node_findall n ''condition'' = children n"
    by (simp_all add: node_findall_def)
  have r: "safe_read n ''rule'' = Inr (rule_lookup_enum (rule a))"
    using a by (simp add: safe_read_def node_get_def node_set_def Element_new_def)
  have l: "from_xml_loop h (children n) [] = (None, map decoded (filter is_valid (conditions a)))"
    using from_xml_loop_all [OF d, of "[]"] by simp
  have "ActivationCondition_from_xml h \<lparr>rule = r0, conditions = []\<rparr> n
        = (None, \<lparr>rule = rule a, conditions = map decoded (filter is_valid (conditions a))\<rparr>)"
    by (simp add: ActivationCondition_from_xml_def r rule_lookup_round_trip f l)
  with e show ?thesis by blast
qed

lemma decoded_id:
  "(has_range c \<longrightarrow> input_type c = Some JoystickAxis \<or> range_of c = (0, 0)) \<Longrightarrow> decoded c = c"
  by (cases c) auto

text \<open>
  Claim C1, as amended. Let a condition be valid, with a GUID in \<^verbatim>\<open>device_guid\<close> if it is
  a Joystick condition and, if it is on an axis, with ends of the range that
  \<^verbatim>\<open>float(str(x))\<close> gives back. Then \<^verbatim>\<open>to_xml\<close> returns an element, and \<^verbatim>\<open>from_xml\<close> of a new
  instance of the class on that element gives the condition back, except for the
  \<^verbatim>\<open>range\<close> of a Joystick or VJoy condition that is not on an axis, which becomes the
  \<^verbatim>\<open>[0.0, 0.0]\<close> of the constructor; the condition comes back as it was when it is on
  an axis or its range is \<^verbatim>\<open>[0.0, 0.0]\<close>. For an \<^verbatim>\<open>ActivationCondition\<close> whose valid
  children are such conditions, \<^verbatim>\<open>from_xml\<close> of an instance without conditions on the
  element \<^verbatim>\<open>to_xml\<close> returns raises nothing and gives the rule and the valid children,
  in order, each as its own round trip gives it.
\<close>

theorem round_trip:
  "(is_valid c \<and> representable h c \<longrightarrow>
      (\<exists>n. to_xml h c = Inr n \<and> from_xml h (new_instance c) n = Inr (decoded c)))
   \<and> ((has_range c \<longrightarrow> input_type c = Some JoystickAxis \<or> range_of c = (0, 0))
        \<longrightarrow> decoded c = c)
   \<and> ((\<forall>c\<in>set (conditions a). is_valid c \<longrightarrow> representable h c) \<longrightarrow>
      (\<exists>n. ActivationCondition_to_xml h a = Inr n
         \<and> ActivationCondition_from_xml h \<lparr>rule = r0, conditions = []\<rparr> n
           = (None, \<lparr>rule = rule a,
                     conditions = map decoded (filter is_valid (conditions a))\<rparr>)))"
proof (intro conjI impI)
  assume v: "is_valid c \<and> representable h c"
  then have "is_valid c" by (rule conjunct1)
  from is_valid_to_xml [OF this, of h] obtain n where n: "to_xml h c = Inr n" ..
  from round_trip_condition [OF v [THEN conjunct1] v [THEN conjunct2] n] n
  show "\<exists>n. to_xml h c = Inr n \<and> from_xml h (new_instance c) n = Inr (decoded c)" by blast
next
  assume "has_range c \<longrightarrow> input_type c = Some JoystickAxis \<or> range_of c = (0, 0)"
  then show "decoded c = c" by (rule decoded_id)
next
  assume "\<forall>c\<in>set (conditions a). is_valid c \<longrightarrow> representable h c"
  then show "\<exists>n. ActivationCondition_to_xml h a = Inr n
         \<and> ActivationCondition_from_xml h \<lparr>rule = r0, conditions = []\<rparr> n
           = (None, \<lparr>rule = rule a,
                     conditions = map decoded (filter is_valid (conditions a))\<rparr>)"
    by (rule round_trip_composite)
qed

theorem round_trip_witness:
  "is_valid (VJoyCondition ''outside'' 1 (Some JoystickAxis) 2 (- 1, 1))
   \<and> representable sample_helpers (VJoyCondition ''outside'' 1 (Some JoystickAxis) 2 (- 1, 1))
   \<and> (case to_xml sample_helpers (VJoyCondition ''outside'' 1 (Some JoystickAxis) 2 (- 1, 1)) of
        Inl e \<Rightarrow> False
      | Inr n \<Rightarrow> from_xml sample_helpers VJoyCondition_init n
                 = Inr (VJoyCondition ''outside'' 1 (Some JoystickAxis) 2 (- 1, 1)))
   \<and> (case ActivationCondition_to_xml sample_helpers
          \<lparr>rule = Any_rule,
           conditions = [KeyboardCondition ''pressed'' (Some 30) (Some False),
                         InputActionCondition '''',
                         VJoyCondition ''outside'' 1 (Some JoystickAxis) 2 (- 1, 1)]\<rparr> of
        Inl e \<Rightarrow> False
      | Inr n \<Rightarrow> ActivationCondition_from_xml sample_helpers
                   \<lparr>rule = All_rule, conditions = []\<rparr> n
                 = (None, \<lparr>rule = Any_rule,
                     conditions = [KeyboardCondition ''pressed'' (Some 30) (Some False),
                                   VJoyCondition ''outside'' 1 (Some JoystickAxis) 2 (- 1, 1)]\<rparr>))"
proof -
  let ?c = "VJoyCondition ''outside'' 1 (Some JoystickAxis) 2 (- 1, 1)"
  let ?k = "KeyboardCondition ''pressed'' (Some 30) (Some False)"
  let ?a = "\<lparr>rule = Any_rule, conditions = [?k, InputActionCondition '''', ?c]\<rparr>"
  have v: "is_valid ?c" by (simp add: AbstractCondition_is_valid_def)
  have rp: "representable sample_helpers ?c"
    by (simp add: float_round_trips_def sample_helpers_def)
  from v rp have vr: "is_valid ?c \<and> representable sample_helpers ?c" by (rule conjI)
  from round_trip [where c = ?c and h = sample_helpers, THEN conjunct1, THEN mp, OF vr]
  obtain n where n: "to_xml sample_helpers ?c = Inr n
      \<and> from_xml sample_helpers (new_instance ?c) n = Inr (decoded ?c)" ..
  from n have n1: "to_xml sample_helpers ?c = Inr n" by (rule conjunct1)
  have dc: "decoded ?c = ?c" by simp
  from n have n2: "from_xml sample_helpers VJoyCondition_init n = Inr ?c"
    unfolding dc new_instance.simps by (rule conjunct2)
  have w1: "case to_xml sample_helpers ?c of Inl e \<Rightarrow> False
      | Inr n \<Rightarrow> from_xml sample_helpers VJoyCondition_init n = Inr ?c"
    by (simp only: n1 sum.case n2)
  have h: "\<forall>c\<in>set (conditions ?a). is_valid c \<longrightarrow> representable sample_helpers c"
    by (simp add: float_round_trips_def sample_helpers_def)
  have res: "\<lparr>rule = rule ?a, conditions = map decoded (filter is_valid (conditions ?a))\<rparr>
      = \<lparr>rule = Any_rule, conditions = [?k, ?c]\<rparr>"
    by (simp add: AbstractCondition_is_valid_def)
  from round_trip [where h = sample_helpers and a = ?a and ?r0.0 = All_rule,
      THEN conjunct2, THEN conjunct2, THEN mp, OF h]
  obtain m where m: "ActivationCondition_to_xml sample_helpers ?a = Inr m
      \<and> ActivationCondition_from_xml sample_helpers \<lparr>rule = All_rule, conditions = []\<rparr> m
        = (None, \<lparr>rule = rule ?a,
                  conditions = map decoded (filter is_valid (conditions ?a))\<rparr>)" ..
  from m have m1: "ActivationCondition_to_xml sample_helpers ?a = Inr m" by (rule conjunct1)
  from m have m2: "ActivationCondition_from_xml sample_helpers
        \<lparr>rule = All_rule, conditions = []\<rparr> m
      = (None, \<lparr>rule = Any_rule, conditions = [?k, ?c]\<rparr>)"
    unfolding res by (rule conjunct2)
  have w2: "case ActivationCondition_to_xml sample_helpers ?a of Inl e \<Rightarrow> False
      | Inr n \<Rightarrow> ActivationCondition_from_xml sample_helpers
                   \<lparr>rule = All_rule, conditions = []\<rparr> n
                 = (None, \<lparr>rule = Any_rule, conditions = [?k, ?c]\<rparr>)"
    by (simp only: m1 sum.case m2)
  from v rp w1 w2 show ?thesis by (intro conjI)
qed

lemma str_int_small: "str_int 1 = ''1''" "str_int 2 = ''2''"
  by (simp_all add: str_int_def str_nat.simps [of "Suc 0"] str_nat.simps [of 2] digit_char_def)

text \<open>
  The claim as stated fails: a valid VJoy condition on a button with the range
  \<^verbatim>\<open>[-1.0, 1.0]\<close> is encoded without \<^verbatim>\<open>range-low\<close> and \<^verbatim>\<open>range-high\<close>, and decoding that
  element gives the range \<^verbatim>\<open>[0.0, 0.0]\<close>.
\<close>

theorem non_axis_range_counterexample:
  "is_valid (VJoyCondition ''pressed'' 1 (Some JoystickButton) 2 (- 1, 1))
   \<and> to_xml sample_helpers (VJoyCondition ''pressed'' 1 (Some JoystickButton) 2 (- 1, 1))
       = Inr vjoy_button_node
   \<and> from_xml sample_helpers VJoyCondition_init vjoy_button_node
       = Inr (VJoyCondition ''pressed'' 1 (Some JoystickButton) 2 (0, 0))
   \<and> from_xml sample_helpers VJoyCondition_init vjoy_button_node
       \<noteq> Inr (VJoyCondition ''pressed'' 1 (Some JoystickButton) 2 (- 1, 1))"
proof -
  let ?c = "VJoyCondition ''pressed'' 1 (Some JoystickButton) 2 (- 1, 1)"
  have v: "is_valid ?c" by (simp add: AbstractCondition_is_valid_def)
  have t: "to_xml sample_helpers ?c = Inr vjoy_button_node"
    by (simp add: Let_def InputType_to_string_def str_int_small vjoy_button_node_def
        node_set_def Element_new_def)
  have ints: "py_int ''2'' = Some 2" "py_int ''1'' = Some 1"
    by (simp_all add: py_int_def strip_def is_space_def int_unsigned_def digit_val_def)
  have r: "safe_read vjoy_button_node ''comparison'' = Inr ''pressed''"
    "safe_read vjoy_button_node ''input'' = Inr ''button''"
    "safe_read_cast vjoy_button_node ''id'' py_int = Inr 2"
    "safe_read_cast vjoy_button_node ''vjoy-id'' py_int = Inr 1"
    by (simp_all add: vjoy_button_node_def safe_read_def safe_read_cast_def node_get_def ints)
  have e: "InputType_to_enum ''button'' = Inr JoystickButton"
    by (simp add: InputType_to_enum_def)
  have nb: "JoystickButton \<noteq> JoystickAxis" by simp
  have f: "from_xml sample_helpers VJoyCondition_init vjoy_button_node
       = Inr (VJoyCondition ''pressed'' 1 (Some JoystickButton) 2 (0, 0))"
    by (simp only: VJoyCondition_init_def from_xml.simps r e sum.case nb if_False)
  have d: "from_xml sample_helpers VJoyCondition_init vjoy_button_node \<noteq> Inr ?c"
    unfolding f by simp
  from v t f d show ?thesis by (intro conjI)
qed

end
